theory Spec2Isabelle
  imports Main "HOL-Library.Char_ord" "HOL-Library.List_Lexorder"
begin

section \<open>Strings\<close>

text \<open>
  A Python \<open>str\<close> is a sequence of code points. It is modelled as a \<^typ>\<open>string\<close>, each
  \<^typ>\<open>char\<close> read as one code point of the range 0..255 (Latin-1), so the length of the
  list is the length Python reports.

  \<open>str.lower()\<close> works code point by code point in that range: the upper-case letters are
  \<open>A\<close>..\<open>Z\<close> (65..90) and 192..222 without the multiplication sign 215, and each is mapped
  to the code point 32 above it. Every other code point of the range is left as it is.
\<close>

definition lower_char :: "char \<Rightarrow> char" where
  "lower_char c =
     (let n = (of_char c :: nat)
      in if (65 \<le> n \<and> n \<le> 90) \<or> (192 \<le> n \<and> n \<le> 222 \<and> n \<noteq> 215)
         then char_of (n + 32) else c)"

definition py_lower :: "string \<Rightarrow> string" where
  "py_lower s = map lower_char s"

text \<open>
  \<open>str.upper()\<close> in the same range: the lower-case letters \<open>a\<close>..\<open>z\<close> (97..122) and
  224..254 without the division sign 247 go to the code point 32 below; the sharp s (223)
  becomes the two letters \<open>SS\<close>. The micro sign (181) and y with diaeresis (255) have
  upper-case forms beyond code point 255, which a \<^typ>\<open>char\<close> cannot hold: the model
  leaves these two unchanged. No attack type of the script contains them.
\<close>

definition upper_char :: "char \<Rightarrow> string" where
  "upper_char c =
     (let n = (of_char c :: nat)
      in if n = 223 then ''SS''
         else if (97 \<le> n \<and> n \<le> 122) \<or> (224 \<le> n \<and> n \<le> 254 \<and> n \<noteq> 247)
         then [char_of (n - 32)] else [c])"

definition py_upper :: "string \<Rightarrow> string" where
  "py_upper s = concat (map upper_char s)"

section \<open>Severity classification\<close>

text \<open>
  \<^verbatim>\<open>
  HIGH_SEVERITY = ["dos", "ddos", "u2r", "r2l", "probe", "backdoor", "worm"]

  def classify_severity(attack):
      attack = str(attack).lower()
      if attack in HIGH_SEVERITY:
          return "HIGH"
      elif attack == "normal":
          return "NORMAL"
      else:
          return "MEDIUM"
  \<close>
  The function is applied to the \<open>attack_type\<close> column, whose cells are strings, so
  \<open>str(attack)\<close> is \<open>attack\<close> itself. The severities are the strings the source returns.
\<close>

definition HIGH_SEVERITY :: "string list" where
  "HIGH_SEVERITY = [''dos'', ''ddos'', ''u2r'', ''r2l'', ''probe'', ''backdoor'', ''worm'']"

definition classify_severity :: "string \<Rightarrow> string" where
  "classify_severity attack =
     (let attack = py_lower attack
      in if attack \<in> set HIGH_SEVERITY then ''HIGH''
         else if attack = ''normal'' then ''NORMAL''
         else ''MEDIUM'')"

section \<open>The synthetic event generator\<close>

text \<open>
  Timestamps are pandas \<open>datetime64[ns]\<close> values: an instant is the number of nanoseconds
  since the epoch, held in a signed 64-bit integer; a \<open>Timedelta\<close> is a number of
  nanoseconds held the same way. The smallest 64-bit value stands for \<open>NaT\<close>, so an
  instant and a duration each range from \<open>-(2^63 - 1)\<close> to \<open>2^63 - 1\<close>
  (\<open>Timestamp.min\<close> and \<open>Timestamp.max\<close>, in the years 1677 and 2262). pandas does not wrap
  around: an operation whose result leaves the range raises. The model computes on
  \<^typ>\<open>int\<close> and makes every such check an error value.
\<close>

datatype py_error = ValueError | OutOfBoundsDatetime | OverflowError

definition int64_max :: int where
  "int64_max = 9223372036854775807"

definition in_bounds :: "int \<Rightarrow> bool" where
  "in_bounds t \<longleftrightarrow> - int64_max \<le> t \<and> t \<le> int64_max"

text \<open>Running one fallible step after another: the first error ends the run.\<close>

definition and_then :: "py_error + 'a \<Rightarrow> ('a \<Rightarrow> py_error + 'b) \<Rightarrow> py_error + 'b" where
  "and_then r f = (case r of Inl e \<Rightarrow> Inl e | Inr x \<Rightarrow> f x)"

definition seconds :: "int \<Rightarrow> int" where
  "seconds n = n * 1000000000"

definition minutes :: "int \<Rightarrow> int" where
  "minutes n = seconds (60 * n)"

definition hours :: "int \<Rightarrow> int" where
  "hours n = minutes (60 * n)"

text \<open>
  \<open>pd.date_range(start, periods=n, freq=f)\<close>: \<open>n\<close> instants, the first at \<open>start\<close>, each
  \<open>f\<close> after the one before it. It raises \<open>OutOfBoundsDatetime\<close> when one of them is not
  in the range of instants.
\<close>

fun date_range :: "int \<Rightarrow> nat \<Rightarrow> int \<Rightarrow> py_error + int list" where
  "date_range start 0 freq = Inr []"
| "date_range start (Suc periods) freq =
     (if in_bounds start
      then and_then (date_range (start + freq) periods freq) (\<lambda>ts. Inr (start # ts))
      else Inl OutOfBoundsDatetime)"

text \<open>
  A row of the frame as lines 94-101 build it: the columns \<open>timestamp\<close> and
  \<open>attack_type\<close>. The \<open>DataFrame\<close> constructor raises \<open>ValueError\<close> when the two columns
  differ in length.
\<close>

record event =
  timestamp :: int
  attack_type :: string

definition DataFrame :: "int list \<Rightarrow> string list \<Rightarrow> py_error + event list" where
  "DataFrame ts ats =
     (if length ts = length ats
      then Inr (map (\<lambda>(t, a). \<lparr>timestamp = t, attack_type = a\<rparr>) (zip ts ats))
      else Inl ValueError)"

text \<open>
  Lines 88-101, with the three counts and the base instant as parameters:
  \<^verbatim>\<open>
  timestamps_high = pd.date_range(base_time, periods=HIGH_COUNT, freq="10S")
  timestamps_medium = pd.date_range(base_time, periods=MEDIUM_COUNT, freq="5T")
  timestamps_normal = pd.date_range(base_time, periods=NORMAL_COUNT, freq="5T")

  alerts_df = pd.DataFrame({
      "timestamp": np.concatenate([timestamps_high, timestamps_medium, timestamps_normal]),
      "attack_type": (["dos"] * HIGH_COUNT + ["other"] * MEDIUM_COUNT + ["normal"] * NORMAL_COUNT)
  })
  \<close>
\<close>

definition generate :: "nat \<Rightarrow> nat \<Rightarrow> nat \<Rightarrow> int \<Rightarrow> py_error + event list" where
  "generate high medium normal base_time =
     and_then (date_range base_time high (seconds 10)) (\<lambda>timestamps_high.
     and_then (date_range base_time medium (minutes 5)) (\<lambda>timestamps_medium.
     and_then (date_range base_time normal (minutes 5)) (\<lambda>timestamps_normal.
       DataFrame (timestamps_high @ timestamps_medium @ timestamps_normal)
         (replicate high ''dos'' @ replicate medium ''other''
            @ replicate normal ''normal''))))"

definition HIGH_COUNT :: nat where
  "HIGH_COUNT = 15799"

definition MEDIUM_COUNT :: nat where
  "MEDIUM_COUNT = 100"

definition NORMAL_COUNT :: nat where
  "NORMAL_COUNT = 100"

text \<open>The frame of the script at the instant \<open>now\<close>: \<open>base_time = now - 6h\<close> (line 88).\<close>

definition initial_events :: "int \<Rightarrow> py_error + event list" where
  "initial_events now = generate HIGH_COUNT MEDIUM_COUNT NORMAL_COUNT (now - hours 6)"

section \<open>The classified frame\<close>

text \<open>
  Lines 117-118 add two columns to the frame, each computed from \<open>attack_type\<close>:
  \<^verbatim>\<open>
  alerts_df["severity"] = alerts_df["attack_type"].apply(classify_severity)
  alerts_df["label"] = alerts_df["attack_type"].str.upper()
  \<close>
  From here on a row has four columns.
\<close>

record alert = event +
  severity :: string
  label :: string

definition classify_frame :: "event list \<Rightarrow> alert list" where
  "classify_frame evs =
     map (\<lambda>e. \<lparr>timestamp = timestamp e, attack_type = attack_type e,
               severity = classify_severity (attack_type e),
               label = py_upper (attack_type e)\<rparr>) evs"

section \<open>The state of the script\<close>

text \<open>
  A \<open>DataFrame\<close> is a mutable object, and the script holds references to frames in its
  variables \<open>alerts_df\<close> and \<open>df\<close>. The state is therefore a store: \<open>heap\<close> maps an
  address to the rows of the frame that lives there, \<open>next_addr\<close> is the first address
  not yet given to an object, and the two variables hold addresses.
  \<open>st.session_state\<close> is a dictionary that outlives a run of the script.
\<close>

record script_state =
  session_state :: "string \<rightharpoonup> bool"
  heap :: "nat \<Rightarrow> alert list"
  next_addr :: nat
  alerts_df :: nat
  df :: nat

section \<open>The time alignment\<close>

text \<open>
  \<open>Series.max()\<close> of a column of instants: the largest one, and \<open>NaT\<close> (here \<open>None\<close>)
  for a column without cells.
\<close>

fun series_max :: "int list \<Rightarrow> int option" where
  "series_max [] = None"
| "series_max (t # ts) = (case series_max ts of None \<Rightarrow> Some t | Some m \<Rightarrow> Some (max t m))"

text \<open>
  \<^verbatim>\<open>
  shift = pd.Timestamp.now() - alerts_df["timestamp"].max()
  alerts_df["timestamp"] += shift
  \<close>
  When the maximum is \<open>NaT\<close> so is the shift, and the column has no cell to add it to: the
  frame stays without rows. Otherwise the subtraction of the two instants raises
  \<open>OutOfBoundsDatetime\<close> (the result is too large for a \<open>Timedelta\<close>) when the difference
  is not in the range of durations, and the addition to the column raises
  \<open>OverflowError\<close> when one of the sums is not in the range of instants. The addition is computed before the column is assigned, so a run that
  raises has written nothing.
\<close>

definition shift_timestamps :: "int \<Rightarrow> alert list \<Rightarrow> py_error + alert list" where
  "shift_timestamps now rows =
     (case series_max (map timestamp rows) of
        None \<Rightarrow> Inr rows
      | Some m \<Rightarrow>
          (let shift = now - m
           in if in_bounds shift
              then (if list_all (\<lambda>r. in_bounds (timestamp r + shift)) rows
                    then Inr (map (\<lambda>r. r\<lparr>timestamp := timestamp r + shift\<rparr>) rows)
                    else Inl OverflowError)
              else Inl OutOfBoundsDatetime))"

text \<open>
  Lines 123-126. The addition writes the column of the object \<open>alerts_df\<close> refers to, in
  place. When the shift raises, the exception ends the run of the script: the frame is
  as it was and the flag is not set.
  \<^verbatim>\<open>
  if "time_shift" not in st.session_state:
      shift = pd.Timestamp.now() - alerts_df["timestamp"].max()
      alerts_df["timestamp"] += shift
      st.session_state.time_shift = True
  \<close>
\<close>

definition time_shift_step :: "int \<Rightarrow> script_state \<Rightarrow> py_error + script_state" where
  "time_shift_step now s =
     (if session_state s ''time_shift'' = None
      then and_then (shift_timestamps now (heap s (alerts_df s)))
             (\<lambda>rows. Inr (s\<lparr>heap := (heap s)(alerts_df s := rows),
                             session_state := (session_state s)(''time_shift'' \<mapsto> True)\<rparr>))
      else Inr s)"

section \<open>The filters\<close>

text \<open>
  The choices offered for the attack type (lines 160-163):
  \<^verbatim>\<open>["All"] + sorted(alerts_df["attack_type"].unique())\<close>
  \<open>Series.unique()\<close> keeps the first appearance of every value; \<open>sorted\<close> orders strings
  by code point, a proper prefix before the longer string.
\<close>

fun unique :: "'a list \<Rightarrow> 'a list" where
  "unique [] = []"
| "unique (x # xs) = x # unique (filter (\<lambda>y. y \<noteq> x) xs)"

definition attack_choices :: "alert list \<Rightarrow> string list" where
  "attack_choices rows = ''All'' # sort (unique (map attack_type rows))"

text \<open>
  Lines 172-177 on the rows of the frames:
  \<^verbatim>\<open>
  df = alerts_df.copy()

  if attack_filter != "All":
      df = df[df["attack_type"] == attack_filter]

  df = df[df["severity"].isin(severity_filter)]
  \<close>
\<close>

definition attack_stage :: "string \<Rightarrow> alert list \<Rightarrow> alert list" where
  "attack_stage attack_filter rows =
     (if attack_filter \<noteq> ''All'' then filter (\<lambda>r. attack_type r = attack_filter) rows
      else rows)"

definition severity_stage :: "string list \<Rightarrow> alert list \<Rightarrow> alert list" where
  "severity_stage severity_filter rows = filter (\<lambda>r. severity r \<in> set severity_filter) rows"

definition filter_df :: "alert list \<Rightarrow> string \<Rightarrow> string list \<Rightarrow> alert list" where
  "filter_df rows attack_filter severity_filter =
     severity_stage severity_filter (attack_stage attack_filter rows)"

text \<open>
  The same lines on the store. \<open>copy()\<close> and the selection by a boolean mask each build a
  new frame object, and the assignment makes \<open>df\<close> refer to it.
\<close>

definition copy_alerts :: "script_state \<Rightarrow> script_state" where
  "copy_alerts s =
     s\<lparr>heap := (heap s)(next_addr s := heap s (alerts_df s)),
       df := next_addr s,
       next_addr := Suc (next_addr s)\<rparr>"

definition select_rows :: "(alert \<Rightarrow> bool) \<Rightarrow> script_state \<Rightarrow> script_state" where
  "select_rows keep s =
     s\<lparr>heap := (heap s)(next_addr s := filter keep (heap s (df s))),
       df := next_addr s,
       next_addr := Suc (next_addr s)\<rparr>"

definition filter_step :: "string \<Rightarrow> string list \<Rightarrow> script_state \<Rightarrow> script_state" where
  "filter_step attack_filter severity_filter s =
     (let s = copy_alerts s;
          s = (if attack_filter \<noteq> ''All''
               then select_rows (\<lambda>r. attack_type r = attack_filter) s else s)
      in select_rows (\<lambda>r. severity r \<in> set severity_filter) s)"

section \<open>The CSV export\<close>

text \<open>
  The columns of \<open>alerts_df\<close> in their order. The constructor (lines 94-101) gives
  \<open>timestamp\<close> and \<open>attack_type\<close>; an assignment \<open>frame[c] = ...\<close> appends the column \<open>c\<close>
  when the frame does not have it and keeps its place when it has. \<open>copy()\<close> and the
  selection of rows keep the columns, so these are the columns of \<open>df\<close> too.
\<close>

definition set_column :: "string \<Rightarrow> string list \<Rightarrow> string list" where
  "set_column c cols = (if c \<in> set cols then cols else cols @ [c])"

definition alerts_columns :: "string list" where
  "alerts_columns =
     set_column ''timestamp''
       (set_column ''label'' (set_column ''severity'' [''timestamp'', ''attack_type'']))"

text \<open>
  \<open>df.to_csv(index=False)\<close> (line 266) writes a header line with the names of the columns
  and one line per row, each line ended by a line feed, the fields separated by commas.
  A field that contains a comma, a double quote, a line feed or a carriage return is put
  in double quotes, with every double quote in it doubled. How pandas prints an instant
  depends on the whole column, and is a parameter \<open>fmt\<close> here: \<open>fmt col t\<close> is the text of
  the instant \<open>t\<close> in the column \<open>col\<close>.
\<close>

definition needs_quotes :: "string \<Rightarrow> bool" where
  "needs_quotes cell =
     list_ex (\<lambda>c. c = CHR '','' \<or> c = CHR 0x22 \<or> c = CHR 0x0A \<or> c = CHR 0x0D) cell"

definition csv_field :: "string \<Rightarrow> string" where
  "csv_field cell =
     (if needs_quotes cell
      then [CHR 0x22] @ concat (map (\<lambda>c. if c = CHR 0x22 then [c, c] else [c]) cell) @ [CHR 0x22]
      else cell)"

fun join :: "string \<Rightarrow> string list \<Rightarrow> string" where
  "join sep [] = []"
| "join sep [x] = x"
| "join sep (x # y # ys) = x @ sep @ join sep (y # ys)"

definition csv_line :: "string list \<Rightarrow> string" where
  "csv_line cells = join '','' (map csv_field cells) @ [CHR 0x0A]"

definition cell_text :: "(int \<Rightarrow> string) \<Rightarrow> alert \<Rightarrow> string \<Rightarrow> string" where
  "cell_text fmt_t r c =
     (if c = ''timestamp'' then fmt_t (timestamp r)
      else if c = ''attack_type'' then attack_type r
      else if c = ''severity'' then severity r
      else if c = ''label'' then label r
      else [])"

definition to_csv :: "(int list \<Rightarrow> int \<Rightarrow> string) \<Rightarrow> alert list \<Rightarrow> string" where
  "to_csv fmt rows =
     (let col = map timestamp rows
      in concat (map csv_line
           (alerts_columns # map (\<lambda>r. map (cell_text (fmt col) r) alerts_columns) rows)))"

text \<open>A printer of instants for frames without rows, where nothing is printed.\<close>

definition no_instants :: "int list \<Rightarrow> int \<Rightarrow> string" where
  "no_instants col t = []"

section \<open>A run of the script and a small frame\<close>

text \<open>
  The state in which the script reaches line 123: the frame built by lines 94-118 is the
  object at address 0, and \<open>alerts_df\<close> refers to it. \<open>df\<close> is assigned at line 172
  before it is read.
\<close>

definition start_state :: "(string \<rightharpoonup> bool) \<Rightarrow> alert list \<Rightarrow> script_state" where
  "start_state ss rows =
     \<lparr>session_state = ss, heap = (\<lambda>a. [])(0 := rows), next_addr = 1, alerts_df = 0, df = 0\<rparr>"

text \<open>
  The frame of three \<open>dos\<close> events, one \<open>other\<close> event and one \<open>normal\<close> event from the
  base instant 0, classified; and the state of a first run that holds it.
\<close>

definition sample_frame :: "alert list" where
  "sample_frame = (case generate 3 1 1 0 of Inr evs \<Rightarrow> classify_frame evs | Inl e \<Rightarrow> [])"

definition sample_state :: script_state where
  "sample_state = start_state Map.empty sample_frame"

section \<open>Properties of the classifier\<close>

lemma lower_char_idem: "lower_char (lower_char c) = lower_char c"
  by (auto simp: lower_char_def Let_def)

lemma py_lower_idem: "py_lower (py_lower s) = py_lower s"
  by (simp add: py_lower_def lower_char_idem)

text \<open>
  Turning the letters \<open>a\<close>..\<open>z\<close> of a string into capitals does not change what
  \<open>py_lower\<close> returns.
\<close>

lemma lower_char_ascii_upper:
  "lower_char (if 97 \<le> (of_char c :: nat) \<and> (of_char c :: nat) \<le> 122
               then char_of (of_char c - 32 :: nat) else c) = lower_char c"
proof (cases "97 \<le> (of_char c :: nat) \<and> (of_char c :: nat) \<le> 122")
  case True
  define m where "m = (of_char c - 32 :: nat)"
  have m: "65 \<le> m" "m \<le> 90" "m + 32 = of_char c"
    using True unfolding m_def by linarith+
  have "(of_char (char_of m :: char) :: nat) = m"
    using m by simp
  then have "lower_char (char_of m) = char_of (m + 32)"
    using m by (simp add: lower_char_def Let_def)
  also have "\<dots> = c"
    by (simp add: m)
  finally have up: "lower_char (char_of m) = c" .
  have "lower_char c = c"
    using True by (simp add: lower_char_def Let_def)
  with up True show ?thesis
    by (simp add: m_def)
next
  case False
  then show ?thesis by auto
qed

lemma py_lower_ascii_upper:
  "py_lower (map (\<lambda>c. if 97 \<le> (of_char c :: nat) \<and> (of_char c :: nat) \<le> 122
                        then char_of (of_char c - 32 :: nat) else c) a) = py_lower a"
  by (simp add: py_lower_def lower_char_ascii_upper comp_def)

lemma py_lower_code_points:
  "py_lower a =
     map (\<lambda>c. if (65 \<le> (of_char c :: nat) \<and> (of_char c :: nat) \<le> 90)
                  \<or> (192 \<le> (of_char c :: nat) \<and> (of_char c :: nat) \<le> 222
                      \<and> (of_char c :: nat) \<noteq> 215)
               then char_of (of_char c + 32 :: nat) else c) a"
  by (simp add: py_lower_def lower_char_def Let_def)

lemma py_lower_alphabet:
  "py_lower ''ABCDEFGHIJKLMNOPQRSTUVWXYZ'' = ''abcdefghijklmnopqrstuvwxyz''"
  "py_lower ''abcdefghijklmnopqrstuvwxyz0123456789_ -''
     = ''abcdefghijklmnopqrstuvwxyz0123456789_ -''"
  by code_simp+

lemma normal_not_high: "''normal'' \<notin> set HIGH_SEVERITY"
  by (simp add: HIGH_SEVERITY_def)

lemma classify_mixed_case:
  "classify_severity ''DoS'' = ''HIGH''" "classify_severity ''DDOS'' = ''HIGH''"
  "classify_severity ''U2R'' = ''HIGH''" "classify_severity ''R2l'' = ''HIGH''"
  "classify_severity ''Probe'' = ''HIGH''" "classify_severity ''BackDoor'' = ''HIGH''"
  "classify_severity ''WORM'' = ''HIGH''" "classify_severity ''NORMAL'' = ''NORMAL''"
  "classify_severity ''Normal'' = ''NORMAL''" "classify_severity ''other'' = ''MEDIUM''"
  "classify_severity ''Unknown'' = ''MEDIUM''" "classify_severity ''dosx'' = ''MEDIUM''"
  by code_simp+

text \<open>
  Claim C2. \<open>classify_severity\<close> is defined on every string and follows the decision order
  of the source: the lower-cased input is looked up in \<open>HIGH_SEVERITY\<close> first, then
  compared with \<open>normal\<close>, and everything else is \<open>MEDIUM\<close>. The three results are
  characterised exactly, the result is always one of the three severities and the empty
  string is \<open>MEDIUM\<close>.

  The input is lower-cased: \<open>py_lower\<close> moves the code points 65..90 and 192..222
  (without 215) up by 32 and keeps every other one, so it turns the capitals \<open>A\<close>..\<open>Z\<close>
  into \<open>a\<close>..\<open>z\<close> and keeps small letters, digits and signs. Hence the class of a string
  does not change when its letters \<open>a\<close>..\<open>z\<close> are written as capitals, and mixed-case
  spellings of the seven high-severity types and of \<open>normal\<close> are classified as the
  lower-case ones. The high-severity set is the list of the source.
\<close>

theorem classify_severity_total:
  "classify_severity a =
     (if py_lower a \<in> set HIGH_SEVERITY then ''HIGH''
      else if py_lower a = ''normal'' then ''NORMAL'' else ''MEDIUM'')
   \<and> (classify_severity a = ''HIGH'' \<longleftrightarrow> py_lower a \<in> set HIGH_SEVERITY)
   \<and> (classify_severity a = ''NORMAL'' \<longleftrightarrow> py_lower a = ''normal'')
   \<and> (classify_severity a = ''MEDIUM'' \<longleftrightarrow>
        py_lower a \<notin> set HIGH_SEVERITY \<and> py_lower a \<noteq> ''normal'')
   \<and> classify_severity a \<in> {''HIGH'', ''MEDIUM'', ''NORMAL''}
   \<and> classify_severity [] = ''MEDIUM''
   \<and> classify_severity (py_lower a) = classify_severity a
   \<and> py_lower a =
        map (\<lambda>c. if (65 \<le> (of_char c :: nat) \<and> (of_char c :: nat) \<le> 90)
                     \<or> (192 \<le> (of_char c :: nat) \<and> (of_char c :: nat) \<le> 222
                         \<and> (of_char c :: nat) \<noteq> 215)
                  then char_of (of_char c + 32 :: nat) else c) a
   \<and> py_lower ''ABCDEFGHIJKLMNOPQRSTUVWXYZ'' = ''abcdefghijklmnopqrstuvwxyz''
   \<and> py_lower ''abcdefghijklmnopqrstuvwxyz0123456789_ -''
        = ''abcdefghijklmnopqrstuvwxyz0123456789_ -''
   \<and> classify_severity
         (map (\<lambda>c. if 97 \<le> (of_char c :: nat) \<and> (of_char c :: nat) \<le> 122
                    then char_of (of_char c - 32 :: nat) else c) a)
        = classify_severity a
   \<and> HIGH_SEVERITY = [''dos'', ''ddos'', ''u2r'', ''r2l'', ''probe'', ''backdoor'', ''worm'']
   \<and> (classify_severity a = ''HIGH'' \<longleftrightarrow>
        py_lower a \<in> {''dos'', ''ddos'', ''u2r'', ''r2l'', ''probe'', ''backdoor'', ''worm''})
   \<and> classify_severity ''DoS'' = ''HIGH'' \<and> classify_severity ''DDOS'' = ''HIGH''
   \<and> classify_severity ''U2R'' = ''HIGH'' \<and> classify_severity ''R2l'' = ''HIGH''
   \<and> classify_severity ''Probe'' = ''HIGH'' \<and> classify_severity ''BackDoor'' = ''HIGH''
   \<and> classify_severity ''WORM'' = ''HIGH'' \<and> classify_severity ''NORMAL'' = ''NORMAL''
   \<and> classify_severity ''Normal'' = ''NORMAL'' \<and> classify_severity ''other'' = ''MEDIUM''
   \<and> classify_severity ''Unknown'' = ''MEDIUM'' \<and> classify_severity ''dosx'' = ''MEDIUM''"
proof -
  have unfolded: "classify_severity a =
     (if py_lower a \<in> set HIGH_SEVERITY then ''HIGH''
      else if py_lower a = ''normal'' then ''NORMAL'' else ''MEDIUM'')"
    by (simp add: classify_severity_def Let_def)
  have empty: "classify_severity [] = ''MEDIUM''"
    by (simp add: classify_severity_def py_lower_def HIGH_SEVERITY_def)
  have insensitive: "classify_severity (py_lower a) = classify_severity a"
    by (simp add: classify_severity_def py_lower_idem)
  have capitals: "classify_severity
         (map (\<lambda>c. if 97 \<le> (of_char c :: nat) \<and> (of_char c :: nat) \<le> 122
                    then char_of (of_char c - 32 :: nat) else c) a)
        = classify_severity a"
    by (simp only: classify_severity_def py_lower_ascii_upper)
  have high: "set HIGH_SEVERITY
        = {''dos'', ''ddos'', ''u2r'', ''r2l'', ''probe'', ''backdoor'', ''worm''}"
    by (simp add: HIGH_SEVERITY_def)
  have first: "(classify_severity a = ''HIGH'' \<longleftrightarrow> py_lower a \<in> set HIGH_SEVERITY)
     \<and> (classify_severity a = ''NORMAL'' \<longleftrightarrow> py_lower a = ''normal'')
     \<and> (classify_severity a = ''MEDIUM'' \<longleftrightarrow>
          py_lower a \<notin> set HIGH_SEVERITY \<and> py_lower a \<noteq> ''normal'')
     \<and> classify_severity a \<in> {''HIGH'', ''MEDIUM'', ''NORMAL''}"
    using unfolded normal_not_high by auto
  then have explicit: "classify_severity a = ''HIGH'' \<longleftrightarrow>
        py_lower a \<in> {''dos'', ''ddos'', ''u2r'', ''r2l'', ''probe'', ''backdoor'', ''worm''}"
    by (simp only: high)
  from unfolded first empty insensitive capitals explicit
    py_lower_code_points [of a] py_lower_alphabet classify_mixed_case HIGH_SEVERITY_def
  show ?thesis
    by (intro conjI) blast+
qed

section \<open>Properties of the generator\<close>

lemma all_less_Suc_shift:
  "(\<forall>i<Suc n. P (start + freq * int i)) \<longleftrightarrow>
     P start \<and> (\<forall>i<n. P ((start + freq) + freq * int i))"
proof
  assume a: "\<forall>i<Suc n. P (start + freq * int i)"
  have "P start"
    using a [rule_format, of 0] by simp
  moreover have "P ((start + freq) + freq * int i)" if "i < n" for i
    using a [rule_format, of "Suc i"] that by (simp add: algebra_simps)
  ultimately show "P start \<and> (\<forall>i<n. P ((start + freq) + freq * int i))"
    by blast
next
  assume b: "P start \<and> (\<forall>i<n. P ((start + freq) + freq * int i))"
  show "\<forall>i<Suc n. P (start + freq * int i)"
  proof (intro allI impI)
    fix i
    assume "i < Suc n"
    show "P (start + freq * int i)"
    proof (cases i)
      case 0
      with b show ?thesis by simp
    next
      case (Suc j)
      with \<open>i < Suc n\<close> have "j < n" by simp
      with b have "P ((start + freq) + freq * int j)" by blast
      with Suc show ?thesis by (simp add: algebra_simps)
    qed
  qed
qed

text \<open>
  \<open>date_range\<close> returns the instants when each of them is in the range, and raises
  otherwise.
\<close>

lemma date_range_eq:
  "date_range start n freq =
     (if \<forall>i<n. in_bounds (start + freq * int i)
      then Inr (map (\<lambda>i. start + freq * int i) [0..<n])
      else Inl OutOfBoundsDatetime)"
proof (induction n arbitrary: start)
  case 0
  show ?case by simp
next
  case (Suc n)
  have upt: "[0..<Suc n] = 0 # map Suc [0..<n]"
    by (simp add: upt_conv_Cons map_Suc_upt del: upt_Suc)
  have m: "map (\<lambda>i. start + freq * int i) [0..<Suc n]
           = start # map (\<lambda>i. (start + freq) + freq * int i) [0..<n]"
    by (simp only: upt) (simp add: algebra_simps comp_def)
  show ?case
    by (simp only: date_range.simps Suc.IH all_less_Suc_shift [of n in_bounds start freq] m)
       (simp add: and_then_def)
qed

lemma zip_map_replicate: "zip (map f xs) (replicate (length xs) c) = map (\<lambda>x. (f x, c)) xs"
  by (induction xs) auto

lemma rows_of_range:
  "map (\<lambda>(t, a). \<lparr>timestamp = t, attack_type = a\<rparr>)
       (zip (map (\<lambda>i. b + f * int i) [0..<n]) (replicate n c))
     = map (\<lambda>i. \<lparr>timestamp = b + f * int i, attack_type = c\<rparr>) [0..<n]"
  using zip_map_replicate [of "\<lambda>i. b + f * int i" "[0..<n]" c]
  by simp

lemma generate_closed_form:
  "generate high medium normal base_time =
     (if (\<forall>i<high. in_bounds (base_time + seconds 10 * int i))
         \<and> (\<forall>i<medium. in_bounds (base_time + minutes 5 * int i))
         \<and> (\<forall>i<normal. in_bounds (base_time + minutes 5 * int i))
      then Inr (map (\<lambda>i. \<lparr>timestamp = base_time + seconds 10 * int i, attack_type = ''dos''\<rparr>) [0..<high]
        @ map (\<lambda>i. \<lparr>timestamp = base_time + minutes 5 * int i, attack_type = ''other''\<rparr>) [0..<medium]
        @ map (\<lambda>i. \<lparr>timestamp = base_time + minutes 5 * int i, attack_type = ''normal''\<rparr>) [0..<normal])
      else Inl OutOfBoundsDatetime)"
  by (simp add: generate_def date_range_eq and_then_def DataFrame_def rows_of_range)

text \<open>
  Claim C3 as the specification states it, for all counts and every base instant, fails:
  two \<open>dos\<close> events from a base instant less than ten seconds before the largest instant.
  The base instant is a timestamp, the second event is not, and the generator raises
  \<open>OutOfBoundsDatetime\<close> instead of returning two events.
\<close>

theorem generate_events_counterexample:
  "in_bounds 9223372031854775807
   \<and> generate 2 0 0 9223372031854775807 = Inl OutOfBoundsDatetime
   \<and> generate 2 0 0 9223372031854775807
       \<noteq> Inr [\<lparr>timestamp = 9223372031854775807, attack_type = ''dos''\<rparr>,
               \<lparr>timestamp = 9223372041854775807, attack_type = ''dos''\<rparr>]"
  by (simp add: generate_def and_then_def in_bounds_def int64_max_def seconds_def
      numeral_2_eq_2)

text \<open>
  Claim C3, amended. For all counts \<open>high\<close>, \<open>medium\<close>, \<open>normal\<close> and every base instant
  such that each instant to generate is in the range of timestamps, the generator raises
  no error and returns \<open>high + medium + normal\<close> events: first the \<open>high\<close> events \<open>dos\<close>,
  the \<open>i\<close>-th of them \<open>i\<close> times 10 seconds after the base instant, then the \<open>medium\<close>
  events \<open>other\<close> and then the \<open>normal\<close> events \<open>normal\<close>, the \<open>i\<close>-th of each \<open>i\<close> times 5
  minutes after the base instant.
\<close>

theorem generate_events:
  assumes "\<forall>i<high. in_bounds (base_time + seconds 10 * int i)"
    and "\<forall>i<medium. in_bounds (base_time + minutes 5 * int i)"
    and "\<forall>i<normal. in_bounds (base_time + minutes 5 * int i)"
  shows "generate high medium normal base_time =
     Inr (map (\<lambda>i. \<lparr>timestamp = base_time + seconds 10 * int i, attack_type = ''dos''\<rparr>) [0..<high]
        @ map (\<lambda>i. \<lparr>timestamp = base_time + minutes 5 * int i, attack_type = ''other''\<rparr>) [0..<medium]
        @ map (\<lambda>i. \<lparr>timestamp = base_time + minutes 5 * int i, attack_type = ''normal''\<rparr>) [0..<normal])
   \<and> (\<exists>rows. generate high medium normal base_time = Inr rows
          \<and> length rows = high + medium + normal)
   \<and> seconds 10 = 10000000000 \<and> minutes 5 = 300000000000"
  using assms by (simp add: generate_closed_form seconds_def minutes_def)

text \<open>The example of the specification: three, one and one event from the instant \<open>T\<close>.\<close>

lemma generate_sample:
  assumes "in_bounds T" and "in_bounds (T + 20000000000)"
  shows "generate 3 1 1 T =
     Inr [\<lparr>timestamp = T, attack_type = ''dos''\<rparr>,
          \<lparr>timestamp = T + 10000000000, attack_type = ''dos''\<rparr>,
          \<lparr>timestamp = T + 20000000000, attack_type = ''dos''\<rparr>,
          \<lparr>timestamp = T, attack_type = ''other''\<rparr>,
          \<lparr>timestamp = T, attack_type = ''normal''\<rparr>]"
  using assms
  by (simp add: generate_def DataFrame_def and_then_def seconds_def minutes_def
      numeral_3_eq_3 in_bounds_def)

theorem generate_events_witness:
  "in_bounds 0 \<and> in_bounds 10000000000 \<and> in_bounds 20000000000
   \<and> generate 3 1 1 0 =
       Inr [\<lparr>timestamp = 0, attack_type = ''dos''\<rparr>,
            \<lparr>timestamp = 10000000000, attack_type = ''dos''\<rparr>,
            \<lparr>timestamp = 20000000000, attack_type = ''dos''\<rparr>,
            \<lparr>timestamp = 0, attack_type = ''other''\<rparr>,
            \<lparr>timestamp = 0, attack_type = ''normal''\<rparr>]
   \<and> (\<exists>rows. generate 3 1 1 0 = Inr rows \<and> length rows = 5)"
proof -
  have bound: "in_bounds (seconds 10 * int i)" if "i < 3" for i
  proof -
    have "int i \<le> 2" using that by simp
    then show ?thesis
      by (simp add: in_bounds_def int64_max_def seconds_def)
  qed
  have h1: "\<forall>i<3. in_bounds (0 + seconds 10 * int i)"
    using bound by simp
  have h2: "\<forall>i<1. in_bounds (0 + minutes 5 * int i)"
    by (simp add: in_bounds_def int64_max_def)
  have rows: "generate 3 1 1 0 =
       Inr [\<lparr>timestamp = 0, attack_type = ''dos''\<rparr>,
            \<lparr>timestamp = 10000000000, attack_type = ''dos''\<rparr>,
            \<lparr>timestamp = 20000000000, attack_type = ''dos''\<rparr>,
            \<lparr>timestamp = 0, attack_type = ''other''\<rparr>,
            \<lparr>timestamp = 0, attack_type = ''normal''\<rparr>]"
    using generate_sample [of 0] by (simp add: in_bounds_def int64_max_def)
  have inst: "in_bounds 0 \<and> in_bounds 10000000000 \<and> in_bounds 20000000000"
    by (simp add: in_bounds_def int64_max_def)
  from generate_events [OF h1 h2 h2] inst rows show ?thesis
    by simp
qed

text \<open>
  The script itself, with its counts and \<open>base_time = now - 6h\<close>, returns its 15999
  events for every clock from six hours after the epoch to the year 2200.
\<close>

lemma initial_events_returns:
  assumes "hours 6 \<le> now" and "now \<le> 7258118400000000000"
  shows "\<exists>rows. initial_events now = Inr rows \<and> length rows = 15999"
proof -
  have high: "in_bounds (now - hours 6 + seconds 10 * int i)" if "i < HIGH_COUNT" for i
  proof -
    have "int i \<le> 15798" using that by (simp add: HIGH_COUNT_def)
    then show ?thesis
      using assms by (simp add: in_bounds_def int64_max_def seconds_def minutes_def hours_def)
  qed
  have rest: "in_bounds (now - hours 6 + minutes 5 * int i)" if "i < 100" for i
  proof -
    have "int i \<le> 99" using that by simp
    then show ?thesis
      using assms by (simp add: in_bounds_def int64_max_def seconds_def minutes_def hours_def)
  qed
  show ?thesis
    using high rest
    by (simp add: initial_events_def generate_closed_form HIGH_COUNT_def MEDIUM_COUNT_def
        NORMAL_COUNT_def)
qed

lemma upper_samples:
  "py_upper ''dos'' = ''DOS''" "py_upper ''other'' = ''OTHER''" "py_upper ''normal'' = ''NORMAL''"
  by code_simp+

lemma classify_samples:
  "classify_severity ''dos'' = ''HIGH''" "classify_severity ''other'' = ''MEDIUM''"
  "classify_severity ''normal'' = ''NORMAL''"
  by code_simp+

lemma sample_frame_rows:
  "sample_frame =
     [\<lparr>timestamp = 0, attack_type = ''dos'', severity = ''HIGH'', label = ''DOS''\<rparr>,
      \<lparr>timestamp = 10000000000, attack_type = ''dos'', severity = ''HIGH'', label = ''DOS''\<rparr>,
      \<lparr>timestamp = 20000000000, attack_type = ''dos'', severity = ''HIGH'', label = ''DOS''\<rparr>,
      \<lparr>timestamp = 0, attack_type = ''other'', severity = ''MEDIUM'', label = ''OTHER''\<rparr>,
      \<lparr>timestamp = 0, attack_type = ''normal'', severity = ''NORMAL'', label = ''NORMAL''\<rparr>]"
proof -
  have "generate 3 1 1 0 =
       Inr [\<lparr>timestamp = 0, attack_type = ''dos''\<rparr>,
            \<lparr>timestamp = 10000000000, attack_type = ''dos''\<rparr>,
            \<lparr>timestamp = 20000000000, attack_type = ''dos''\<rparr>,
            \<lparr>timestamp = 0, attack_type = ''other''\<rparr>,
            \<lparr>timestamp = 0, attack_type = ''normal''\<rparr>]"
    using generate_sample [of 0] by (simp add: in_bounds_def int64_max_def)
  then show ?thesis
    by (simp add: sample_frame_def classify_frame_def upper_samples classify_samples)
qed

section \<open>Properties of the frame\<close>

lemma classify_severity_range: "classify_severity a \<in> {''HIGH'', ''MEDIUM'', ''NORMAL''}"
  by (simp add: classify_severity_def Let_def)

text \<open>
  The severity column of every frame the script builds holds the three severities only,
  and the time alignment does not touch it.
\<close>

lemma classify_frame_severities:
  "set (map severity (classify_frame evs)) \<subseteq> {''HIGH'', ''MEDIUM'', ''NORMAL''}"
  using classify_severity_range by (auto simp: classify_frame_def)

section \<open>Properties of the time alignment\<close>

lemma series_max_Max: "ts \<noteq> [] \<Longrightarrow> series_max ts = Some (Max (set ts))"
proof (induction ts)
  case Nil
  then show ?case by simp
next
  case (Cons t ts)
  show ?case
  proof (cases ts)
    case Nil
    then show ?thesis by simp
  next
    case (Cons u us)
    then have "series_max ts = Some (Max (set ts))"
      using Cons.IH by simp
    moreover have "Max (set (t # ts)) = max t (Max (set ts))"
      using Cons by (simp add: Max_insert)
    ultimately show ?thesis by simp
  qed
qed

lemma series_max_add:
  "series_max (map (\<lambda>t. t + d) ts) = map_option (\<lambda>m. m + d) (series_max ts)"
  by (induction ts) (auto split: option.splits)

text \<open>A shift that returns has added one duration to the timestamp of every row.\<close>

lemma shift_timestamps_Inr:
  assumes "shift_timestamps now rows = Inr rows'"
  shows "\<exists>d. rows' = map (\<lambda>r. r\<lparr>timestamp := timestamp r + d\<rparr>) rows"
proof (cases "series_max (map timestamp rows)")
  case None
  then have "rows' = rows"
    using assms by (simp add: shift_timestamps_def)
  then have "rows' = map (\<lambda>r. r\<lparr>timestamp := timestamp r + 0\<rparr>) rows"
    by simp
  then show ?thesis ..
next
  case (Some m)
  then have "rows' = map (\<lambda>r. r\<lparr>timestamp := timestamp r + (now - m)\<rparr>) rows"
    using assms by (simp add: shift_timestamps_def Let_def split: if_splits)
  then show ?thesis ..
qed

lemma shift_timestamps_severity:
  assumes "shift_timestamps now rows = Inr rows'"
  shows "map severity rows' = map severity rows"
proof -
  from shift_timestamps_Inr [OF assms] obtain d
    where "rows' = map (\<lambda>r. r\<lparr>timestamp := timestamp r + d\<rparr>) rows" ..
  then show ?thesis by (simp add: comp_def)
qed

lemma shift_timestamps_fits:
  assumes "rows \<noteq> []"
    and "in_bounds (now - Max (set (map timestamp rows)))"
    and "\<forall>r\<in>set rows. in_bounds (timestamp r + (now - Max (set (map timestamp rows))))"
  shows "shift_timestamps now rows =
           Inr (map (\<lambda>r. r\<lparr>timestamp := timestamp r + (now - Max (set (map timestamp rows)))\<rparr>)
                  rows)"
proof -
  have "map timestamp rows \<noteq> []"
    using assms(1) by simp
  then have "series_max (map timestamp rows) = Some (Max (set (map timestamp rows)))"
    by (rule series_max_Max)
  then show ?thesis
    using assms(2,3) by (simp add: shift_timestamps_def Let_def list_all_iff)
qed

text \<open>
  Claim C6. The guarded alignment of lines 123-126 is idempotent: from any state, and
  whatever the clock shows at the two runs, running it and then running it again gives
  what running it once gives. When the first run returns, it leaves the flag set, a
  second run returns the same state, neither the timestamps nor the flag changed, and so
  does a run in any later state \<open>t\<close> of the session, which has the session state the first
  run left. When the first run raises, the exception ends the run of the script, and it
  can raise only with the flag cleared. From a state with the flag cleared the first run
  shifts the frame \<open>alerts_df\<close> refers to and sets the flag, when the shift returns.
\<close>

theorem time_shift_step_idempotent:
  "and_then (time_shift_step now1 s) (time_shift_step now2) = time_shift_step now1 s
   \<and> (case time_shift_step now1 s of
         Inl e \<Rightarrow> session_state s ''time_shift'' = None
       | Inr s1 \<Rightarrow>
           session_state s1 ''time_shift'' \<noteq> None
           \<and> time_shift_step now2 s1 = Inr s1
           \<and> time_shift_step now2 (t\<lparr>session_state := session_state s1\<rparr>)
               = Inr (t\<lparr>session_state := session_state s1\<rparr>))
   \<and> time_shift_step now1 (s\<lparr>session_state := (session_state s)(''time_shift'' := None)\<rparr>)
       = and_then (shift_timestamps now1 (heap s (alerts_df s)))
           (\<lambda>rows. Inr (s\<lparr>heap := (heap s)(alerts_df s := rows),
                           session_state := (session_state s)(''time_shift'' \<mapsto> True)\<rparr>))
   \<and> (session_state s ''time_shift'' = None \<or> time_shift_step now1 s = Inr s)"
  by (auto simp: time_shift_step_def and_then_def split: sum.splits)

text \<open>
  A first run on the small frame returns: the flag was cleared, the frame is shifted, the
  flag is set, and a second run at another instant returns the same state.
\<close>

theorem time_shift_step_idempotent_witness:
  "session_state sample_state ''time_shift'' = None
   \<and> (\<exists>s1. time_shift_step 50000000000 sample_state = Inr s1
          \<and> map timestamp (heap s1 (alerts_df s1))
              = [30000000000, 40000000000, 50000000000, 30000000000, 30000000000]
          \<and> session_state s1 ''time_shift'' = Some True
          \<and> time_shift_step 90000000000 s1 = Inr s1)
   \<and> and_then (time_shift_step 50000000000 sample_state) (time_shift_step 90000000000)
       = time_shift_step 50000000000 sample_state"
proof -
  have shifted: "shift_timestamps 50000000000 sample_frame =
     Inr [\<lparr>timestamp = 30000000000, attack_type = ''dos'', severity = ''HIGH'', label = ''DOS''\<rparr>,
      \<lparr>timestamp = 40000000000, attack_type = ''dos'', severity = ''HIGH'', label = ''DOS''\<rparr>,
      \<lparr>timestamp = 50000000000, attack_type = ''dos'', severity = ''HIGH'', label = ''DOS''\<rparr>,
      \<lparr>timestamp = 30000000000, attack_type = ''other'', severity = ''MEDIUM'', label = ''OTHER''\<rparr>,
      \<lparr>timestamp = 30000000000, attack_type = ''normal'', severity = ''NORMAL'',
         label = ''NORMAL''\<rparr>]"
    by (simp add: sample_frame_rows shift_timestamps_def in_bounds_def int64_max_def)
  have first: "\<exists>s1. time_shift_step 50000000000 sample_state = Inr s1
          \<and> map timestamp (heap s1 (alerts_df s1))
              = [30000000000, 40000000000, 50000000000, 30000000000, 30000000000]
          \<and> session_state s1 ''time_shift'' = Some True"
    by (simp add: time_shift_step_def sample_state_def start_state_def and_then_def shifted)
  have flag: "session_state sample_state ''time_shift'' = None"
    by (simp add: sample_state_def start_state_def)
  from first flag
    time_shift_step_idempotent [of 50000000000 sample_state 90000000000 sample_state]
  show ?thesis
    by (auto split: sum.splits)
qed

text \<open>
  Claim C7 as the specification states it, for every frame and clock, fails: a frame with
  one event of the year 1684 and a clock of the year 2001. Both are timestamps, their
  difference is not a duration, the subtraction raises, the step ends the run, and the
  largest timestamp of the frame is still the one of 1684 and not \<open>now\<close>. It fails as
  well for the frame without rows, which has no largest timestamp before the shift or
  after it.
\<close>

theorem shift_preserves_spacing_counterexample:
  "in_bounds (- 9000000000000000000) \<and> in_bounds 1000000000000000000
   \<and> shift_timestamps 1000000000000000000
        [\<lparr>timestamp = - 9000000000000000000, attack_type = ''dos'',
          severity = ''HIGH'', label = ''DOS''\<rparr>]
       = Inl OutOfBoundsDatetime
   \<and> time_shift_step 1000000000000000000
        (start_state Map.empty
           [\<lparr>timestamp = - 9000000000000000000, attack_type = ''dos'',
             severity = ''HIGH'', label = ''DOS''\<rparr>])
       = Inl OutOfBoundsDatetime
   \<and> series_max (map timestamp
        [\<lparr>timestamp = - 9000000000000000000, attack_type = ''dos'',
          severity = ''HIGH'', label = ''DOS''\<rparr>])
       \<noteq> Some 1000000000000000000
   \<and> shift_timestamps 1000000000000000000 [] = Inr []
   \<and> series_max (map timestamp ([] :: alert list)) \<noteq> Some 1000000000000000000"
  by (simp add: shift_timestamps_def time_shift_step_def start_state_def and_then_def
      in_bounds_def int64_max_def)

text \<open>
  Claim C7, amended. The shift is \<open>now\<close> minus the largest timestamp of the frame, added
  to the timestamp of every row. In a frame that has a row, when the shift is in the
  range of durations and every shifted timestamp in the range of instants, the alignment
  returns; it keeps the number of rows, the difference between the timestamps of any two
  rows and hence their order, and the largest timestamp after the shift is \<open>now\<close>.
\<close>

theorem shift_preserves_spacing:
  assumes "rows \<noteq> []"
    and "in_bounds (now - Max (set (map timestamp rows)))"
    and "\<forall>r\<in>set rows. in_bounds (timestamp r + (now - Max (set (map timestamp rows))))"
  shows "series_max (map timestamp rows) = Some (Max (set (map timestamp rows)))
   \<and> shift_timestamps now rows =
       Inr (map (\<lambda>r. r\<lparr>timestamp := timestamp r + (now - Max (set (map timestamp rows)))\<rparr>)
              rows)
   \<and> (\<exists>rows'. shift_timestamps now rows = Inr rows'
        \<and> series_max (map timestamp rows') = Some now
        \<and> length rows' = length rows
        \<and> (\<forall>i<length rows. \<forall>j<length rows.
              timestamp (rows' ! i) - timestamp (rows' ! j)
                = timestamp (rows ! i) - timestamp (rows ! j))
        \<and> (\<forall>i<length rows. \<forall>j<length rows.
              (timestamp (rows' ! i) \<le> timestamp (rows' ! j))
                = (timestamp (rows ! i) \<le> timestamp (rows ! j))))"
proof -
  let ?d = "now - Max (set (map timestamp rows))"
  let ?rows' = "map (\<lambda>r. r\<lparr>timestamp := timestamp r + ?d\<rparr>) rows"
  have ne: "map timestamp rows \<noteq> []"
    using assms(1) by simp
  have mx: "series_max (map timestamp rows) = Some (Max (set (map timestamp rows)))"
    using ne by (rule series_max_Max)
  have run: "shift_timestamps now rows = Inr ?rows'"
    using assms by (rule shift_timestamps_fits)
  have "map timestamp ?rows' = map (\<lambda>t. t + ?d) (map timestamp rows)"
    by (simp add: comp_def)
  then have "series_max (map timestamp ?rows')
        = map_option (\<lambda>m. m + ?d) (series_max (map timestamp rows))"
    by (simp only: series_max_add)
  also have "\<dots> = Some now"
    using mx by simp
  finally have new_max: "series_max (map timestamp ?rows') = Some now" .
  have len: "length ?rows' = length rows"
    by simp
  have nth: "timestamp (?rows' ! i) = timestamp (rows ! i) + ?d" if "i < length rows" for i
    using that by simp
  have "series_max (map timestamp ?rows') = Some now
        \<and> length ?rows' = length rows
        \<and> (\<forall>i<length rows. \<forall>j<length rows.
              timestamp (?rows' ! i) - timestamp (?rows' ! j)
                = timestamp (rows ! i) - timestamp (rows ! j))
        \<and> (\<forall>i<length rows. \<forall>j<length rows.
              (timestamp (?rows' ! i) \<le> timestamp (?rows' ! j))
                = (timestamp (rows ! i) \<le> timestamp (rows ! j)))"
    using new_max len nth by simp
  with run mx show ?thesis
    by blast
qed

theorem shift_preserves_spacing_witness:
  "sample_frame \<noteq> []
   \<and> in_bounds (50000000000 - Max (set (map timestamp sample_frame)))
   \<and> list_all (\<lambda>r. in_bounds (timestamp r + (50000000000 - 20000000000))) sample_frame
   \<and> (\<exists>rows'. shift_timestamps 50000000000 sample_frame = Inr rows'
        \<and> series_max (map timestamp rows') = Some 50000000000
        \<and> map timestamp rows'
            = [30000000000, 40000000000, 50000000000, 30000000000, 30000000000]
        \<and> timestamp (rows' ! 2) - timestamp (rows' ! 4)
            = timestamp (sample_frame ! 2) - timestamp (sample_frame ! 4))"
proof -
  have h1: "sample_frame \<noteq> []"
    by (simp add: sample_frame_rows)
  have "series_max (map timestamp sample_frame) = Some 20000000000"
    by (simp add: sample_frame_rows)
  moreover have "series_max (map timestamp sample_frame)
      = Some (Max (set (map timestamp sample_frame)))"
    using h1 by (intro series_max_Max) simp
  ultimately have mx: "Max (set (map timestamp sample_frame)) = 20000000000"
    by simp
  have h2: "in_bounds (50000000000 - Max (set (map timestamp sample_frame)))"
    by (simp only: mx) (simp add: in_bounds_def int64_max_def)
  have all: "list_all (\<lambda>r. in_bounds (timestamp r + (50000000000 - 20000000000))) sample_frame"
    by (simp add: sample_frame_rows in_bounds_def int64_max_def)
  then have h3: "\<forall>r\<in>set sample_frame.
      in_bounds (timestamp r + (50000000000 - Max (set (map timestamp sample_frame))))"
    by (simp only: mx list_all_iff)
  have len: "length sample_frame = 5"
    by (simp add: sample_frame_rows)
  have ts: "map timestamp
        (map (\<lambda>r. r\<lparr>timestamp := timestamp r + (50000000000 - 20000000000)\<rparr>) sample_frame)
      = [30000000000, 40000000000, 50000000000, 30000000000, 30000000000]"
    by (simp add: sample_frame_rows)
  from shift_preserves_spacing [OF h1 h2 h3] obtain rows'
    where r: "shift_timestamps 50000000000 sample_frame = Inr rows'"
      and e: "shift_timestamps 50000000000 sample_frame =
         Inr (map (\<lambda>r. r\<lparr>timestamp := timestamp r
                 + (50000000000 - Max (set (map timestamp sample_frame)))\<rparr>) sample_frame)"
      and m: "series_max (map timestamp rows') = Some 50000000000"
      and d: "\<forall>i<length sample_frame. \<forall>j<length sample_frame.
              timestamp (rows' ! i) - timestamp (rows' ! j)
                = timestamp (sample_frame ! i) - timestamp (sample_frame ! j)"
    by blast
  from r e have "rows' = map (\<lambda>r. r\<lparr>timestamp := timestamp r + (50000000000 - 20000000000)\<rparr>)
      sample_frame"
    by (simp only: mx) simp
  then have t: "map timestamp rows'
      = [30000000000, 40000000000, 50000000000, 30000000000, 30000000000]"
    using ts by simp
  have dd: "timestamp (rows' ! 2) - timestamp (rows' ! 4)
            = timestamp (sample_frame ! 2) - timestamp (sample_frame ! 4)"
    using d len by simp
  have "\<exists>rows'. shift_timestamps 50000000000 sample_frame = Inr rows'
        \<and> series_max (map timestamp rows') = Some 50000000000
        \<and> map timestamp rows'
            = [30000000000, 40000000000, 50000000000, 30000000000, 30000000000]
        \<and> timestamp (rows' ! 2) - timestamp (rows' ! 4)
            = timestamp (sample_frame ! 2) - timestamp (sample_frame ! 4)"
    using r m t dd by - (rule exI [of _ rows'], (intro conjI; assumption))
  with h1 h2 all show ?thesis
    by (intro conjI)
qed

section \<open>Properties of the filters\<close>

lemma attack_stage_filter:
  "attack_stage a rows = filter (\<lambda>r. a = ''All'' \<or> attack_type r = a) rows"
  by (simp add: attack_stage_def)

lemma filter_all_rows:
  assumes "set (map severity rows) \<subseteq> {''HIGH'', ''MEDIUM'', ''NORMAL''}"
  shows "filter_df rows ''All'' [''HIGH'', ''MEDIUM'', ''NORMAL''] = rows"
proof -
  have "filter (\<lambda>r. severity r \<in> set [''HIGH'', ''MEDIUM'', ''NORMAL'']) rows = rows"
    using assms by (intro filter_True) auto
  then show ?thesis
    by (simp add: filter_df_def severity_stage_def attack_stage_def)
qed

text \<open>
  Claim C4. With the choice \<open>All\<close> and the three severities selected, the filter returns
  the frame as it is, rows and count, for every frame whose severity column holds the
  three severities only. Every frame the script builds is such a frame, before the time
  alignment and after it, whatever its events are: for these the filter is the identity
  without any condition (where the alignment raises there is no frame to filter, and
  the error stays the error).
\<close>

theorem filter_all_identity:
  assumes "set (map severity rows) \<subseteq> {''HIGH'', ''MEDIUM'', ''NORMAL''}"
  shows "filter_df rows ''All'' [''HIGH'', ''MEDIUM'', ''NORMAL''] = rows
     \<and> length (filter_df rows ''All'' [''HIGH'', ''MEDIUM'', ''NORMAL'']) = length rows
     \<and> filter_df (classify_frame evs) ''All'' [''HIGH'', ''MEDIUM'', ''NORMAL'']
         = classify_frame evs
     \<and> map_sum id (\<lambda>rows'. filter_df rows' ''All'' [''HIGH'', ''MEDIUM'', ''NORMAL''])
           (shift_timestamps now (classify_frame evs))
         = shift_timestamps now (classify_frame evs)"
proof -
  have given: "filter_df rows ''All'' [''HIGH'', ''MEDIUM'', ''NORMAL''] = rows"
    using assms by (rule filter_all_rows)
  have built: "filter_df (classify_frame evs) ''All'' [''HIGH'', ''MEDIUM'', ''NORMAL'']
         = classify_frame evs"
    using classify_frame_severities by (rule filter_all_rows)
  have aligned: "map_sum id (\<lambda>rows'. filter_df rows' ''All'' [''HIGH'', ''MEDIUM'', ''NORMAL''])
           (shift_timestamps now (classify_frame evs))
         = shift_timestamps now (classify_frame evs)"
  proof (cases "shift_timestamps now (classify_frame evs)")
    case (Inl e)
    then show ?thesis by simp
  next
    case (Inr rows')
    then have "set (map severity rows') \<subseteq> {''HIGH'', ''MEDIUM'', ''NORMAL''}"
      by (simp only: shift_timestamps_severity classify_frame_severities)
    then have "filter_df rows' ''All'' [''HIGH'', ''MEDIUM'', ''NORMAL''] = rows'"
      by (rule filter_all_rows)
    with Inr show ?thesis by simp
  qed
  from given built aligned show ?thesis
    by simp
qed

theorem filter_all_identity_witness:
  "set (map severity sample_frame) \<subseteq> {''HIGH'', ''MEDIUM'', ''NORMAL''}
   \<and> filter_df sample_frame ''All'' [''HIGH'', ''MEDIUM'', ''NORMAL''] = sample_frame
   \<and> length (filter_df sample_frame ''All'' [''HIGH'', ''MEDIUM'', ''NORMAL'']) = 5"
proof -
  have h: "set (map severity sample_frame) \<subseteq> {''HIGH'', ''MEDIUM'', ''NORMAL''}"
    by (simp add: sample_frame_rows)
  have len: "length sample_frame = 5"
    by (simp add: sample_frame_rows)
  from filter_all_identity [OF h] h len show ?thesis
    by simp
qed

text \<open>
  Claim C5. With no severity selected the filter returns the frame without rows, for
  every frame and every choice of the attack type; no step of the filter can raise.
\<close>

theorem filter_no_severity_empty:
  "filter_df rows a [] = [] \<and> length (filter_df rows a []) = 0"
  by (simp add: filter_df_def severity_stage_def)

text \<open>
  Claim C10. The two stages of the filter commute, and the filter is the selection of
  the rows that pass both tests.
\<close>

theorem filter_stages_commute:
  "severity_stage sv (attack_stage a rows) = attack_stage a (severity_stage sv rows)
   \<and> filter_df rows a sv = attack_stage a (severity_stage sv rows)
   \<and> filter_df rows a sv
       = filter (\<lambda>r. (a = ''All'' \<or> attack_type r = a) \<and> severity r \<in> set sv) rows"
  by (auto simp: filter_df_def severity_stage_def attack_stage_filter intro: filter_cong)

text \<open>The example of the specification: the choice \<open>dos\<close> keeps the three \<open>HIGH\<close> rows.\<close>

lemma filter_sample_dos:
  "filter_df sample_frame ''dos'' [''HIGH'', ''MEDIUM'', ''NORMAL''] = take 3 sample_frame"
  by (simp add: sample_frame_rows filter_df_def attack_stage_def severity_stage_def)

lemma filter_step_view:
  "heap (filter_step a sv s) (df (filter_step a sv s)) = filter_df (heap s (alerts_df s)) a sv"
  by (simp add: filter_step_def copy_alerts_def select_rows_def filter_df_def
      attack_stage_def severity_stage_def Let_def)

lemma filter_step_old_objects:
  "p < next_addr s \<Longrightarrow> heap (filter_step a sv s) p = heap s p"
  by (simp add: filter_step_def copy_alerts_def select_rows_def Let_def)

lemma filter_step_variables:
  "alerts_df (filter_step a sv s) = alerts_df s"
  "session_state (filter_step a sv s) = session_state s"
  by (simp_all add: filter_step_def copy_alerts_def select_rows_def Let_def)

text \<open>
  The variable \<open>alerts_df\<close> refers to an object of the store in the state the script
  starts from, and the steps keep it so.
\<close>

lemma start_state_valid: "alerts_df (start_state ss rows) < next_addr (start_state ss rows)"
  by (simp add: start_state_def)

lemma time_shift_step_valid:
  "alerts_df s < next_addr s \<Longrightarrow> time_shift_step now s = Inr s' \<Longrightarrow>
     alerts_df s' < next_addr s'"
  by (auto simp: time_shift_step_def and_then_def split: if_splits sum.splits)

lemma filter_step_valid:
  "alerts_df s < next_addr s \<Longrightarrow>
     alerts_df (filter_step a sv s) < next_addr (filter_step a sv s)"
  by (simp add: filter_step_def copy_alerts_def select_rows_def Let_def)

text \<open>
  Claim C8. In a state where \<open>alerts_df\<close> refers to an object of the store, the filter of
  lines 172-177 leaves the base frame as it was: the variable \<open>alerts_df\<close>, the rows of
  the frame it refers to, every other object that existed before, and the session
  state. The view \<open>df\<close> refers to afterwards is a function of the rows of the base frame
  and the two choices alone: a second run gives the same view as the first, and so does a
  run from any other state that holds the same base frame.
\<close>

theorem filter_step_frame:
  assumes "alerts_df s < next_addr s"
  shows "alerts_df (filter_step a sv s) = alerts_df s
       \<and> heap (filter_step a sv s) (alerts_df s) = heap s (alerts_df s)
       \<and> (\<forall>p<next_addr s. heap (filter_step a sv s) p = heap s p)
       \<and> session_state (filter_step a sv s) = session_state s
       \<and> heap (filter_step a sv s) (df (filter_step a sv s))
           = filter_df (heap s (alerts_df s)) a sv
       \<and> heap (filter_step a sv (filter_step a sv s))
              (df (filter_step a sv (filter_step a sv s)))
           = heap (filter_step a sv s) (df (filter_step a sv s))
       \<and> (\<forall>t. heap t (alerts_df t) = heap s (alerts_df s) \<longrightarrow>
             heap (filter_step a sv t) (df (filter_step a sv t))
               = heap (filter_step a sv s) (df (filter_step a sv s)))"
proof -
  have base: "heap (filter_step a sv s) (alerts_df s) = heap s (alerts_df s)"
    using assms by (rule filter_step_old_objects)
  have again: "heap (filter_step a sv (filter_step a sv s))
                 (df (filter_step a sv (filter_step a sv s)))
               = filter_df (heap s (alerts_df s)) a sv"
    by (simp only: filter_step_view filter_step_variables base)
  show ?thesis
    using base again
    by (simp add: filter_step_view filter_step_old_objects filter_step_variables)
qed

theorem filter_step_frame_witness:
  "alerts_df sample_state < next_addr sample_state
   \<and> heap (filter_step ''dos'' [''HIGH''] sample_state) (alerts_df sample_state) = sample_frame
   \<and> heap (filter_step ''dos'' [''HIGH''] sample_state)
          (df (filter_step ''dos'' [''HIGH''] sample_state)) = take 3 sample_frame
   \<and> heap (filter_step ''dos'' [''HIGH''] (filter_step ''dos'' [''HIGH''] sample_state))
          (df (filter_step ''dos'' [''HIGH''] (filter_step ''dos'' [''HIGH''] sample_state)))
       = take 3 sample_frame"
proof -
  have h: "alerts_df sample_state < next_addr sample_state"
    by (simp add: sample_state_def start_state_def)
  have base: "heap sample_state (alerts_df sample_state) = sample_frame"
    by (simp add: sample_state_def start_state_def)
  have view: "filter_df sample_frame ''dos'' [''HIGH''] = take 3 sample_frame"
    by (simp add: sample_frame_rows filter_df_def attack_stage_def severity_stage_def)
  from filter_step_frame [OF h, of "''dos''" "[''HIGH'']"] h base view show ?thesis
    by simp
qed

section \<open>Properties of the choices\<close>

lemma set_unique: "set (unique xs) = set xs"
  by (induction xs rule: unique.induct) auto

lemma distinct_unique: "distinct (unique xs)"
  by (induction xs rule: unique.induct) (auto simp: set_unique)

text \<open>
  Claim C9. The choices offered for the attack type are \<open>All\<close> followed by the attack
  types of the frame, each once, in ascending order of strings (code point by code
  point, a proper prefix first): \<open>All\<close> is the first choice and every attack type of the
  frame is among the others.
\<close>

theorem attack_choices_sorted:
  "attack_choices rows = ''All'' # sorted_list_of_set (attack_type ` set rows)
   \<and> hd (attack_choices rows) = ''All''
   \<and> sorted (tl (attack_choices rows))
   \<and> distinct (tl (attack_choices rows))
   \<and> set (tl (attack_choices rows)) = attack_type ` set rows"
proof -
  have "sort (unique (map attack_type rows))
        = sorted_list_of_set (set (unique (map attack_type rows)))"
    by (simp add: sorted_list_of_set_sort_remdups distinct_remdups_id [OF distinct_unique])
  then show ?thesis
    by (simp add: attack_choices_def set_unique distinct_unique)
qed

lemma attack_choices_sample: "attack_choices sample_frame = [''All'', ''dos'', ''normal'', ''other'']"
  unfolding sample_frame_rows by code_simp

section \<open>Properties of the CSV export\<close>

lemma alerts_columns_order:
  "alerts_columns = [''timestamp'', ''attack_type'', ''severity'', ''label'']"
  by (simp add: alerts_columns_def set_column_def)

lemma csv_header:
  "csv_line alerts_columns = ''timestamp,attack_type,severity,label'' @ [CHR 0x0A]"
  by (simp add: alerts_columns_order csv_line_def csv_field_def needs_quotes_def)

lemma csv_cells:
  "map (cell_text f r) alerts_columns = [f (timestamp r), attack_type r, severity r, label r]"
  by (simp add: alerts_columns_order cell_text_def)

text \<open>
  Claim C1 as the specification states it fails: the export writes every column of the
  frame, and the frame has the column \<open>attack_type\<close> as well, before \<open>severity\<close> and
  \<open>label\<close>. The export of a filtered frame without rows is not the line
  \<open>timestamp,label,severity\<close>.
\<close>

theorem to_csv_header_counterexample:
  "to_csv no_instants (filter_df sample_frame ''All'' [])
     = ''timestamp,attack_type,severity,label'' @ [CHR 0x0A]
   \<and> to_csv no_instants (filter_df sample_frame ''All'' [])
     \<noteq> ''timestamp,label,severity'' @ [CHR 0x0A]"
  by (simp add: to_csv_def csv_header filter_df_def severity_stage_def)

text \<open>
  Claim C1, amended. For every frame the export has the four columns \<open>timestamp\<close>,
  \<open>attack_type\<close>, \<open>severity\<close>, \<open>label\<close> in this order: the header line is
  \<open>timestamp,attack_type,severity,label\<close>, and one line follows for each row, with the
  cells of the row in the same order. The export of a frame without rows is the header
  line alone.
\<close>

theorem to_csv_columns:
  "alerts_columns = [''timestamp'', ''attack_type'', ''severity'', ''label'']
   \<and> to_csv fmt rows
       = ''timestamp,attack_type,severity,label'' @ [CHR 0x0A]
         @ concat (map (\<lambda>r. csv_line [fmt (map timestamp rows) (timestamp r),
                                       attack_type r, severity r, label r]) rows)
   \<and> to_csv fmt [] = ''timestamp,attack_type,severity,label'' @ [CHR 0x0A]"
proof -
  have "to_csv fmt rows
       = ''timestamp,attack_type,severity,label'' @ [CHR 0x0A]
         @ concat (map (\<lambda>r. csv_line [fmt (map timestamp rows) (timestamp r),
                                       attack_type r, severity r, label r]) rows)"
    by (simp add: to_csv_def Let_def csv_cells csv_header comp_def)
  moreover have "to_csv fmt [] = ''timestamp,attack_type,severity,label'' @ [CHR 0x0A]"
    by (simp add: to_csv_def csv_header)
  ultimately show ?thesis
    using alerts_columns_order by blast
qed


end
